theory Spec2Isabelle
  imports Main
begin

section \<open>JavaScript values used by the storefront middleware\<close>

text \<open>
  The file \<^verbatim>\<open>src/apps/storefront/src/middleware.ts\<close> holds two revisions of the
  storefront middleware. \<^verbatim>\<open>getRegionMap\<close> and \<^verbatim>\<open>getCountryCode\<close> are the same text in
  both (lines 13-99 and 157-243); the exported \<^verbatim>\<open>middleware\<close> differs (lines 104-138 and
  lines 248-337). The seven-rule decision policy of the specification is the one of lines
  248-337, which is embedded below as \<open>middleware\<close>; the one of lines 104-138 is embedded
  as \<open>middleware_l104\<close>.

  Strings are \<open>char list\<close>, a character being a byte. \<^verbatim>\<open>toLowerCase\<close> is modelled on
  the ASCII letters \<^verbatim>\<open>A\<close> to \<^verbatim>\<open>Z\<close> and leaves every other byte as it is: it is JavaScript's
  \<^verbatim>\<open>toLowerCase\<close> on ASCII strings, which \<^verbatim>\<open>nextUrl.pathname\<close> (percent-encoded) and ISO
  country codes are, and it is not on a string with a letter outside ASCII, which a
  hint, a directory key or the configured default region may hold.
\<close>

definition lower_char :: "char \<Rightarrow> char" where
  "lower_char c =
     (let n = (of_char c :: nat) in if 65 \<le> n \<and> n \<le> 90 then char_of (n + 32) else c)"

definition toLowerCase :: "string \<Rightarrow> string" where
  "toLowerCase s = map lower_char s"

text \<open>\<^verbatim>\<open>s.split(d)\<close> for a one-character separator: never empty, \<^verbatim>\<open>"".split("/")\<close> is
  \<^verbatim>\<open>[""]\<close> and \<^verbatim>\<open>"/".split("/")\<close> is \<^verbatim>\<open>["", ""]\<close>.\<close>

fun split_str :: "char \<Rightarrow> string \<Rightarrow> string list" where
  "split_str d [] = [[]]"
| "split_str d (c # cs) =
     (if c = d then [] # split_str d cs
      else (c # hd (split_str d cs)) # tl (split_str d cs))"

text \<open>\<^verbatim>\<open>xs[i]\<close>: \<^verbatim>\<open>undefined\<close> (here \<open>None\<close>) out of range.\<close>

definition at_index :: "'a list \<Rightarrow> nat \<Rightarrow> 'a option" where
  "at_index xs i = (if i < length xs then Some (xs ! i) else None)"

text \<open>\<^verbatim>\<open>xs.filter(Boolean)\<close> on strings drops the empty ones.\<close>

definition filter_Boolean :: "string list \<Rightarrow> string list" where
  "filter_Boolean xs = filter (\<lambda>s. s \<noteq> []) xs"

text \<open>\<^verbatim>\<open>s.includes(".")\<close>.\<close>

definition includes_dot :: "string \<Rightarrow> bool" where
  "includes_dot s = (CHR ''.'' \<in> set s)"

text \<open>Truthiness of a value of type \<^verbatim>\<open>string | undefined\<close>: \<^verbatim>\<open>undefined\<close>, \<^verbatim>\<open>null\<close>
  and the empty string are falsy.\<close>

fun truthy :: "string option \<Rightarrow> bool" where
  "truthy None = False"
| "truthy (Some s) = (s \<noteq> [])"

text \<open>\<^verbatim>\<open>a || b\<close> on strings.\<close>

definition or_else :: "string option \<Rightarrow> string \<Rightarrow> string" where
  "or_else a b = (case a of None \<Rightarrow> b | Some s \<Rightarrow> if s = [] then b else s)"

subsection \<open>A JavaScript \<^verbatim>\<open>Map\<close> with string keys\<close>

text \<open>A \<^verbatim>\<open>Map\<close> iterates in insertion order, and \<^verbatim>\<open>set\<close> on a key that is present
  keeps the key's place: an association list, updated in place or extended at the end.\<close>

type_synonym 'v js_map = "(string \<times> 'v) list"

definition map_has :: "'v js_map \<Rightarrow> string \<Rightarrow> bool" where
  "map_has m k = (k \<in> set (map fst m))"

fun map_set :: "string \<Rightarrow> 'v \<Rightarrow> 'v js_map \<Rightarrow> 'v js_map" where
  "map_set k v [] = [(k, v)]"
| "map_set k v (e # m) = (if fst e = k then (k, v) # m else e # map_set k v m)"

text \<open>\<^verbatim>\<open>m.keys().next().value\<close>: the first key, \<^verbatim>\<open>undefined\<close> for the empty map.\<close>

fun keys_next_value :: "'v js_map \<Rightarrow> string option" where
  "keys_next_value [] = None"
| "keys_next_value (e # m) = Some (fst e)"

definition map_size :: "'v js_map \<Rightarrow> nat" where
  "map_size m = length m"

section \<open>Configuration, regions and requests\<close>

text \<open>The three environment variables read at lines 148-150.\<close>

record process_env =
  NEXT_PUBLIC_MEDUSA_BACKEND_URL :: "string option"
  NEXT_PUBLIC_MEDUSA_PUBLISHABLE_KEY :: "string option"
  NEXT_PUBLIC_DEFAULT_REGION :: "string option"

definition BACKEND_URL :: "process_env \<Rightarrow> string option" where
  "BACKEND_URL env = NEXT_PUBLIC_MEDUSA_BACKEND_URL env"

definition DEFAULT_REGION :: "process_env \<Rightarrow> string" where
  "DEFAULT_REGION env = or_else (NEXT_PUBLIC_DEFAULT_REGION env) ''dk''"

text \<open>What the middleware reads of a \<^verbatim>\<open>HttpTypes.StoreRegion\<close>: its countries and their
  \<^verbatim>\<open>iso_2\<close> codes, both optional.\<close>

record region_country =
  iso_2 :: "string option"

record store_region =
  region_id :: string
  countries :: "region_country list option"

text \<open>What the middleware reads of a \<^verbatim>\<open>NextRequest\<close>. \<open>cf_country\<close> is
  \<^verbatim>\<open>request.cf?.country\<close>, \<open>x_vercel_ip_country\<close> the header of that name, and
  \<open>cookie_medusa_cache_id\<close> the value of the cookie \<^verbatim>\<open>_medusa_cache_id\<close> when the request
  carries it.\<close>

record request =
  origin :: string
  pathname :: string
  search :: string
  cf_country :: "string option"
  x_vercel_ip_country :: "string option"
  cookie_medusa_cache_id :: "string option"

text \<open>\<^verbatim>\<open>request.nextUrl.href\<close> of a request as a server receives it (no fragment).\<close>

definition href :: "request \<Rightarrow> string" where
  "href req = origin req @ pathname req @ search req"

section \<open>getCountryCode (lines 213-243)\<close>

definition urlCountryCode :: "request \<Rightarrow> string option" where
  "urlCountryCode req =
     map_option toLowerCase (at_index (split_str CHR ''/'' (pathname req)) 1)"

definition cloudflareCountryCode :: "request \<Rightarrow> string option" where
  "cloudflareCountryCode req = map_option toLowerCase (cf_country req)"

definition vercelCountryCode :: "request \<Rightarrow> string option" where
  "vercelCountryCode req = map_option toLowerCase (x_vercel_ip_country req)"

definition getCountryCode ::
  "process_env \<Rightarrow> request \<Rightarrow> 'v js_map \<Rightarrow> string option" where
  "getCountryCode env req regionMap =
     (if truthy (urlCountryCode req) \<and> map_has regionMap (the (urlCountryCode req))
        then urlCountryCode req
      else if truthy (cloudflareCountryCode req)
          \<and> map_has regionMap (the (cloudflareCountryCode req))
        then cloudflareCountryCode req
      else if truthy (vercelCountryCode req)
          \<and> map_has regionMap (the (vercelCountryCode req))
        then vercelCountryCode req
      else if map_has regionMap (DEFAULT_REGION env)
        then Some (DEFAULT_REGION env)
      else if truthy (keys_next_value regionMap)
        then keys_next_value regionMap
      else None)"

section \<open>getRegionMap (lines 157-206)\<close>

text \<open>The module-level \<^verbatim>\<open>regionMapCache\<close> (lines 152-155) is state that outlives a request:
  \<open>getRegionMap\<close> takes it and returns it updated.\<close>

record region_cache =
  cache_regionMap :: "store_region js_map"
  cache_regionMapUpdated :: int

text \<open>The \<^verbatim>\<open>regions\<close> member of the reply's JSON body, by what lines 189-200 do with it:
  \<^item> \<open>Nullish\<close>: the member is missing or \<^verbatim>\<open>null\<close> (also when the body is a number, a
    string, a boolean or an array), so \<^verbatim>\<open>regions?.length\<close> is \<^verbatim>\<open>undefined\<close>;
  \<^item> \<open>FalsyLength\<close>: a value that is no array and whose \<^verbatim>\<open>length\<close> is falsy (a number, a
    boolean, the empty string, an object without a \<^verbatim>\<open>length\<close>);
  \<^item> \<open>RegionList\<close>: an array, its elements regions as line 196 declares them
    (\<^verbatim>\<open>region: HttpTypes.StoreRegion\<close>);
  \<^item> \<open>TruthyLengthNotArray\<close>: a value with a truthy \<^verbatim>\<open>length\<close> that is no array (a string
    that is not empty, an object with a \<^verbatim>\<open>length\<close>), on which \<^verbatim>\<open>regions.forEach\<close> is no
    function.\<close>

datatype regions_value =
  Nullish
| FalsyLength
| RegionList "store_region list"
| TruthyLengthNotArray

text \<open>The body of the reply: text that \<^verbatim>\<open>response.json()\<close> cannot parse, the JSON value
  \<^verbatim>\<open>null\<close>, which line 189 cannot destructure, or another JSON value with its \<^verbatim>\<open>regions\<close>
  member.\<close>

datatype reply_body =
  NotJson
| JsonNull
| JsonValue regions_value

text \<open>What \<open>getRegionMap\<close> reads of the backend's reply to
  \<^verbatim>\<open>GET {BACKEND_URL}/store/regions\<close>: \<^verbatim>\<open>response.ok\<close>, \<^verbatim>\<open>response.status\<close> and the
  body.\<close>

record http_response =
  ok :: bool
  status :: nat
  body :: reply_body

text \<open>The awaited \<^verbatim>\<open>fetch\<close> is rejected (no connection, no reply) or resolves with a reply,
  whatever its status. The outcome depends on the URL, the publishable key sent as a
  header, and the revalidation tag \<^verbatim>\<open>regions-{cacheId}\<close>.\<close>

datatype fetch_result =
  Rejected
| Resolved http_response

type_synonym fetch_fn = "string \<Rightarrow> string option \<Rightarrow> string \<Rightarrow> fetch_result"

text \<open>The errors a call can end with: the two \<^verbatim>\<open>throw\<close> statements (lines 161 and 184), and
  what the awaited calls and the reading of the body throw, which nothing in the file
  catches: the rejection of \<^verbatim>\<open>fetch\<close> (line 171), the \<^verbatim>\<open>SyntaxError\<close> of
  \<^verbatim>\<open>response.json()\<close> (line 187), and the \<^verbatim>\<open>TypeError\<close> of lines 189 and 196.\<close>

datatype error =
  MissingBackendUrl
| FetchRejected
| BackendReturned nat
| BodyNotJson
| BodyNotReadable

text \<open>The inner \<^verbatim>\<open>forEach\<close> (lines 197-199): one \<^verbatim>\<open>set\<close> per country, on the cached map
  itself; \<^verbatim>\<open>c.iso_2 ?? ""\<close> is the key.\<close>

fun set_countries ::
  "store_region \<Rightarrow> region_country list \<Rightarrow> store_region js_map \<Rightarrow> store_region js_map" where
  "set_countries region [] m = m"
| "set_countries region (c # cs) m =
     set_countries region cs
       (map_set (case iso_2 c of None \<Rightarrow> [] | Some k \<Rightarrow> k) region m)"

text \<open>The outer \<^verbatim>\<open>forEach\<close> (lines 196-200); \<^verbatim>\<open>region.countries?.forEach\<close> skips a region
  with no country list.\<close>

fun set_regions :: "store_region list \<Rightarrow> store_region js_map \<Rightarrow> store_region js_map" where
  "set_regions [] m = m"
| "set_regions (region # rs) m =
     set_regions rs
       (case countries region of None \<Rightarrow> m | Some cs \<Rightarrow> set_countries region cs m)"

text \<open>The condition of the \<^verbatim>\<open>if\<close> at lines 166-169: the cached map has no first key (or
  its first key is the empty string), or it is older than an hour.\<close>

definition refresh_due :: "region_cache \<Rightarrow> int \<Rightarrow> bool" where
  "refresh_due cache now =
     (\<not> truthy (keys_next_value (cache_regionMap cache))
      \<or> cache_regionMapUpdated cache < now - 3600 * 1000)"

text \<open>\<open>now\<close> is \<^verbatim>\<open>Date.now()\<close> at line 168 and \<open>later\<close> is \<^verbatim>\<open>Date.now()\<close> at line 202,
  after the fetch. The result is the error thrown, or the map returned with the cache as
  the call leaves it.\<close>

definition getRegionMap ::
  "process_env \<Rightarrow> region_cache \<Rightarrow> int \<Rightarrow> int \<Rightarrow> fetch_fn \<Rightarrow> string
     \<Rightarrow> error + (store_region js_map \<times> region_cache)" where
  "getRegionMap env cache now later fetch cacheId =
     (if \<not> truthy (BACKEND_URL env) then Inl MissingBackendUrl
      else if refresh_due cache now then
        (case fetch (the (BACKEND_URL env) @ ''/store/regions'')
                (NEXT_PUBLIC_MEDUSA_PUBLISHABLE_KEY env) (''regions-'' @ cacheId) of
           Rejected \<Rightarrow> Inl FetchRejected
         | Resolved response \<Rightarrow>
             if \<not> ok response then Inl (BackendReturned (status response))
             else (case body response of
                     NotJson \<Rightarrow> Inl BodyNotJson
                   | JsonNull \<Rightarrow> Inl BodyNotReadable
                   | JsonValue regions \<Rightarrow>
                       (case regions of
                          Nullish \<Rightarrow> Inr ([], cache)
                        | FalsyLength \<Rightarrow> Inr ([], cache)
                        | RegionList [] \<Rightarrow> Inr ([], cache)
                        | RegionList (r # rs) \<Rightarrow>
                            (let m = set_regions (r # rs) (cache_regionMap cache)
                             in Inr (m, \<lparr>cache_regionMap = m,
                                        cache_regionMapUpdated = later\<rparr>))
                        | TruthyLengthNotArray \<Rightarrow> Inl BodyNotReadable)))
      else Inr (cache_regionMap cache, cache))"

section \<open>Responses\<close>

text \<open>\<^verbatim>\<open>NextResponse.redirect(url, status)\<close> sets the \<^verbatim>\<open>Location\<close> header to
  \<^verbatim>\<open>String(new URL(url))\<close>, the URL as the URL parser serialises it, not the string it was
  given. \<open>url_href\<close> is that serialisation for the URLs the middleware builds, an origin
  followed by a path that starts with a slash: the scheme and the authority stay as they
  are (the middleware takes them from \<^verbatim>\<open>request.nextUrl.origin\<close>, which is serialised
  already), the path ends at the first \<^verbatim>\<open>?\<close> or \<^verbatim>\<open>#\<close>, a backslash in it counts as a slash,
  and its dot segments are removed: a segment \<^verbatim>\<open>.\<close> (or \<^verbatim>\<open>%2e\<close>) is dropped, and a segment
  \<^verbatim>\<open>..\<close> (or \<^verbatim>\<open>.%2e\<close>, \<^verbatim>\<open>%2e.\<close>, \<^verbatim>\<open>%2e%2e\<close>) drops the segment before it too. What
  follows the path is kept. The percent-encoding of characters that a URL may not hold
  is not modelled, and a string without \<^verbatim>\<open>://\<close> is left as it is.\<close>

fun after_scheme :: "string \<Rightarrow> (string \<times> string) option" where
  "after_scheme [] = None"
| "after_scheme (c # cs) =
     (if c = CHR '':'' \<and> take 2 cs = ''//'' then Some (c # take 2 cs, drop 2 cs)
      else map_option (\<lambda>(a, b). (c # a, b)) (after_scheme cs))"

definition is_single_dot :: "string \<Rightarrow> bool" where
  "is_single_dot s = (toLowerCase s = ''.'' \<or> toLowerCase s = ''%2e'')"

definition is_double_dot :: "string \<Rightarrow> bool" where
  "is_double_dot s =
     (toLowerCase s = ''..'' \<or> toLowerCase s = ''.%2e'' \<or> toLowerCase s = ''%2e.''
      \<or> toLowerCase s = ''%2e%2e'')"

text \<open>The path state of the URL parser: \<open>path\<close> is the path so far, last segment first.\<close>

fun path_state :: "string list \<Rightarrow> string list \<Rightarrow> string list" where
  "path_state path [] = rev path"
| "path_state path (s # ss) =
     (if is_double_dot s then
        (if ss = [] then rev ([] # tl path) else path_state (tl path) ss)
      else if is_single_dot s then
        (if ss = [] then rev ([] # path) else path_state path ss)
      else path_state (s # path) ss)"

definition is_path_end :: "char \<Rightarrow> bool" where
  "is_path_end c = (c = CHR ''?'' \<or> c = CHR ''#'')"

definition is_slash :: "char \<Rightarrow> bool" where
  "is_slash c = (c = CHR ''/'' \<or> c = CHR 0x5C)"

definition url_href :: "string \<Rightarrow> string" where
  "url_href url =
     (case after_scheme url of
        None \<Rightarrow> url
      | Some (scheme, rest) \<Rightarrow>
          (let authority = takeWhile (\<lambda>c. \<not> is_slash c \<and> \<not> is_path_end c) rest;
               after = dropWhile (\<lambda>c. \<not> is_slash c \<and> \<not> is_path_end c) rest;
               path = takeWhile (\<lambda>c. \<not> is_path_end c) after;
               tail = dropWhile (\<lambda>c. \<not> is_path_end c) after;
               segments =
                 split_str CHR ''/''
                   (map (\<lambda>c. if is_slash c then CHR ''/'' else c) (drop 1 path))
           in scheme @ authority
              @ concat (map (\<lambda>s. CHR ''/'' # s) (path_state [] segments)) @ tail))"

text \<open>A redirect holds the value of its \<^verbatim>\<open>Location\<close> header and its status.\<close>

datatype action =
  Next
| Redirect string nat

text \<open>A \<^verbatim>\<open>NextResponse\<close>: what it tells the framework to do, and the cookies it sets, each
  with its name, value and \<^verbatim>\<open>maxAge\<close>.\<close>

record response =
  action :: action
  cookies :: "(string \<times> string \<times> nat) list"

definition NextResponse_next :: response where
  "NextResponse_next = \<lparr>action = Next, cookies = []\<rparr>"

definition NextResponse_redirect :: "string \<Rightarrow> nat \<Rightarrow> response" where
  "NextResponse_redirect url st = \<lparr>action = Redirect (url_href url) st, cookies = []\<rparr>"

definition cookies_set :: "string \<Rightarrow> string \<Rightarrow> nat \<Rightarrow> response \<Rightarrow> response" where
  "cookies_set name v maxAge r =
     r\<lparr>cookies := filter (\<lambda>c. fst c \<noteq> name) (cookies r) @ [(name, v, maxAge)]\<rparr>"

section \<open>middleware (lines 248-337)\<close>

text \<open>The \<^verbatim>\<open>return\<close> statement a call leaves through, by its line.\<close>

datatype branch =
  Return_281
| Return_286
| Return_291
| Return_301
| Return_306
| Return_313
| Return_328
| Return_333
| Return_336

text \<open>Lines 249-336 with the map that \<open>getRegionMap\<close> returned; \<open>uuid\<close> is what
  \<^verbatim>\<open>crypto.randomUUID()\<close> yields when it is called. The result is the \<^verbatim>\<open>return\<close> taken and
  the response returned.\<close>

definition middleware_steps ::
  "process_env \<Rightarrow> request \<Rightarrow> string \<Rightarrow> store_region js_map \<Rightarrow> branch \<times> response" where
  "middleware_steps env req uuid regionMap =
     (let redirectUrl = href req;
          response = NextResponse_redirect redirectUrl 307;
          cacheIdCookie = cookie_medusa_cache_id req;
          cacheId = or_else cacheIdCookie uuid;
          countryCode = getCountryCode env req regionMap;
          redirectPath = (if pathname req = ''/'' then [] else pathname req);
          queryString = or_else (Some (search req)) [];
          urlHasCountryCode =
            (truthy countryCode
             \<and> urlCountryCode req = Some (toLowerCase (the countryCode)));
          fallbackCountry = or_else (Some (DEFAULT_REGION env)) ''dk''
      in if map_size regionMap = 0 then
           (let pathSegments = filter_Boolean (split_str CHR ''/'' (pathname req));
                urlAlreadyHasFallback =
                  (map_option toLowerCase (at_index pathSegments 0)
                   = Some (toLowerCase fallbackCountry))
            in if urlAlreadyHasFallback then (Return_281, NextResponse_next)
               else (Return_286,
                     NextResponse_redirect
                       (origin req @ ''/'' @ fallbackCountry @ redirectPath @ queryString) 307))
         else if urlHasCountryCode \<and> cacheIdCookie \<noteq> None then
           (Return_291, NextResponse_next)
         else if urlHasCountryCode \<and> cacheIdCookie = None then
           (Return_301,
            cookies_set ''_medusa_cache_id'' cacheId (60 * 60 * 24) NextResponse_next)
         else if includes_dot (pathname req) then (Return_306, NextResponse_next)
         else if \<not> urlHasCountryCode \<and> truthy countryCode then
           (Return_313,
            NextResponse_redirect
              (origin req @ ''/'' @ the countryCode @ redirectPath @ queryString) 307)
         else if \<not> urlHasCountryCode \<and> \<not> truthy countryCode then
           (let pathSegments = filter_Boolean (split_str CHR ''/'' (pathname req))
            in if map_option toLowerCase (at_index pathSegments 0)
                  = Some (toLowerCase fallbackCountry)
               then (Return_328,
                     if cacheIdCookie = None
                     then cookies_set ''_medusa_cache_id'' cacheId (60 * 60 * 24)
                            NextResponse_next
                     else NextResponse_next)
               else (Return_333,
                     NextResponse_redirect
                       (origin req @ ''/'' @ fallbackCountry @ redirectPath @ queryString) 307))
         else (Return_336, response))"

definition middleware_decide ::
  "process_env \<Rightarrow> request \<Rightarrow> string \<Rightarrow> store_region js_map \<Rightarrow> response" where
  "middleware_decide env req uuid regionMap = snd (middleware_steps env req uuid regionMap)"

text \<open>The whole function: the cache identifier, \<open>getRegionMap\<close> (whose error ends the
  call), then the steps above.\<close>

definition middleware ::
  "process_env \<Rightarrow> region_cache \<Rightarrow> int \<Rightarrow> int \<Rightarrow> fetch_fn \<Rightarrow> string \<Rightarrow> request
     \<Rightarrow> error + (response \<times> region_cache)" where
  "middleware env cache now later fetch uuid req =
     (let cacheId = or_else (cookie_medusa_cache_id req) uuid
      in case getRegionMap env cache now later fetch cacheId of
           Inl e \<Rightarrow> Inl e
         | Inr (regionMap, cache') \<Rightarrow>
             Inr (middleware_decide env req uuid regionMap, cache'))"

section \<open>middleware (lines 104-138)\<close>

text \<open>Lines 109-137 with the map that \<open>getRegionMap\<close> returned.\<close>

definition middleware_l104_decide ::
  "process_env \<Rightarrow> request \<Rightarrow> string \<Rightarrow> store_region js_map \<Rightarrow> response" where
  "middleware_l104_decide env req uuid regionMap =
     (let cacheIdCookie = cookie_medusa_cache_id req;
          cacheId = or_else cacheIdCookie uuid;
          countryCode = getCountryCode env req regionMap;
          country = or_else countryCode (DEFAULT_REGION env);
          firstPathSegment = urlCountryCode req;
          urlHasCountry = (firstPathSegment = Some (toLowerCase country))
      in if urlHasCountry then
           (if cacheIdCookie = None
            then cookies_set ''_medusa_cache_id'' cacheId (60 * 60 * 24) NextResponse_next
            else NextResponse_next)
         else
           (let redirectPath = (if pathname req = ''/'' then [] else pathname req);
                queryString = or_else (Some (search req)) [];
                redirectUrl = origin req @ ''/'' @ country @ redirectPath @ queryString
            in NextResponse_redirect redirectUrl 307))"

text \<open>The whole function: a path with a dot leaves at line 106, before the cache is
  read.\<close>

definition middleware_l104 ::
  "process_env \<Rightarrow> region_cache \<Rightarrow> int \<Rightarrow> int \<Rightarrow> fetch_fn \<Rightarrow> string \<Rightarrow> request
     \<Rightarrow> error + (response \<times> region_cache)" where
  "middleware_l104 env cache now later fetch uuid req =
     (if includes_dot (pathname req) then Inr (NextResponse_next, cache)
      else
        (let cacheId = or_else (cookie_medusa_cache_id req) uuid
         in case getRegionMap env cache now later fetch cacheId of
              Inl e \<Rightarrow> Inl e
            | Inr (regionMap, cache') \<Rightarrow>
                Inr (middleware_l104_decide env req uuid regionMap, cache')))"

section \<open>Notions the statements use\<close>

text \<open>The first non-empty segment of the path, \<^verbatim>\<open>pathname.split("/").filter(Boolean)[0]\<close>
  (lines 275-277 and 319-321).\<close>

definition first_segment :: "request \<Rightarrow> string option" where
  "first_segment req = at_index (filter_Boolean (split_str CHR ''/'' (pathname req))) 0"

text \<open>The region-prefixed URL of a request: \<^verbatim>\<open>{origin}/{code}{redirectPath}{queryString}\<close>
  (lines 285, 311 and 331), where \<^verbatim>\<open>redirectPath\<close> is empty for the root path.\<close>

definition region_url :: "request \<Rightarrow> string \<Rightarrow> string" where
  "region_url req code =
     origin req @ ''/'' @ code @ (if pathname req = ''/'' then [] else pathname req)
       @ search req"

text \<open>The candidates of \<open>getCountryCode\<close> in the order it tries them, as it compares them:
  the path segment and the two hints lower-cased, the default region and the first key as
  they are.\<close>

definition precedence :: "process_env \<Rightarrow> request \<Rightarrow> 'v js_map \<Rightarrow> string list" where
  "precedence env req m =
     List.map_filter id
       [urlCountryCode req, cloudflareCountryCode req, vercelCountryCode req,
        Some (DEFAULT_REGION env), keys_next_value m]"

text \<open>The precedence as the specification words it: the first path segment, the primary
  and the secondary hint, the default region and the first entry of the directory, each as
  it arrives, the first of them that is a key of the directory.\<close>

definition stated_precedence :: "process_env \<Rightarrow> request \<Rightarrow> 'v js_map \<Rightarrow> string list" where
  "stated_precedence env req m =
     List.map_filter id
       [at_index (split_str CHR ''/'' (pathname req)) 1, cf_country req,
        x_vercel_ip_country req, Some (DEFAULT_REGION env), keys_next_value m]"

definition stated_country_code ::
  "process_env \<Rightarrow> request \<Rightarrow> 'v js_map \<Rightarrow> string option" where
  "stated_country_code env req m = List.find (map_has m) (stated_precedence env req m)"


text \<open>How the awaited \<^verbatim>\<open>fetch\<close> ends when \<open>getRegionMap\<close> fetches (lines 171-181).\<close>

definition backend_reply :: "process_env \<Rightarrow> fetch_fn \<Rightarrow> string \<Rightarrow> fetch_result" where
  "backend_reply env fetch cacheId =
     fetch (the (BACKEND_URL env) @ ''/store/regions'')
       (NEXT_PUBLIC_MEDUSA_PUBLISHABLE_KEY env) (''regions-'' @ cacheId)"

text \<open>The entries a fetched region list gives, in the order the two loops set them.\<close>

definition derived_entries :: "store_region list \<Rightarrow> store_region js_map" where
  "derived_entries rs =
     concat (map (\<lambda>region.
        case countries region of
          None \<Rightarrow> []
        | Some cs \<Rightarrow>
            map (\<lambda>c. (case iso_2 c of None \<Rightarrow> [] | Some k \<Rightarrow> k, region)) cs) rs)"

text \<open>The URL is region-prefixed: its segment after the first slash is the resolved
  country code or, when none is resolved, its first non-empty segment is the fallback
  region; both compared in lower case, as lines 266-269 and 321 do.\<close>

definition url_has_region :: "process_env \<Rightarrow> request \<Rightarrow> 'v js_map \<Rightarrow> bool" where
  "url_has_region env req m =
     (case getCountryCode env req m of
        Some c \<Rightarrow> urlCountryCode req = Some (toLowerCase c)
      | None \<Rightarrow> map_option toLowerCase (first_segment req)
                 = Some (toLowerCase (DEFAULT_REGION env)))"

subsection \<open>The example of the specification\<close>

text \<open>Directory \<^verbatim>\<open>{"us": "reg_1", "dk": "reg_2"}\<close>, default region \<^verbatim>\<open>dk\<close>, no hints and no
  cookie.\<close>

definition shop_env :: process_env where
  "shop_env =
     \<lparr>NEXT_PUBLIC_MEDUSA_BACKEND_URL = Some ''http://localhost:9000'',
      NEXT_PUBLIC_MEDUSA_PUBLISHABLE_KEY = Some ''pk_test'',
      NEXT_PUBLIC_DEFAULT_REGION = None\<rparr>"

definition reg_1 :: store_region where
  "reg_1 = \<lparr>region_id = ''reg_1'', countries = Some [\<lparr>iso_2 = Some ''us''\<rparr>]\<rparr>"

definition reg_2 :: store_region where
  "reg_2 = \<lparr>region_id = ''reg_2'', countries = Some [\<lparr>iso_2 = Some ''dk''\<rparr>]\<rparr>"

definition shop_directory :: "store_region js_map" where
  "shop_directory = [(''us'', reg_1), (''dk'', reg_2)]"

definition shop_request :: "string \<Rightarrow> request" where
  "shop_request path =
     \<lparr>origin = ''https://shop.example'', pathname = path, search = [],
      cf_country = None, x_vercel_ip_country = None, cookie_medusa_cache_id = None\<rparr>"

section \<open>Strings and maps\<close>












lemma or_else_not_Nil: "b \<noteq> [] \<Longrightarrow> or_else a b \<noteq> []"
  by (auto simp: or_else_def split: option.splits)

lemma or_else_Some: "or_else (Some s) [] = s" "s \<noteq> [] \<Longrightarrow> or_else (Some s) b = s"
  by (auto simp: or_else_def)

lemma DEFAULT_REGION_not_Nil: "DEFAULT_REGION env \<noteq> []"
  by (simp add: DEFAULT_REGION_def or_else_not_Nil)

lemma keys_next_value_has: "keys_next_value m = Some k \<Longrightarrow> map_has m k"
  by (cases m) (auto simp: map_has_def)

lemma map_of_map_set: "map_of (map_set k v m) = (map_of m)(k \<mapsto> v)"
  by (induction m) (auto simp: fun_eq_iff)

lemma map_of_set_countries:
  "map_of (set_countries region cs m)
   = map_of m
     ++ map_of (rev (map (\<lambda>c. (case iso_2 c of None \<Rightarrow> [] | Some k \<Rightarrow> k, region)) cs))"
  by (induction cs arbitrary: m) (simp_all add: map_of_map_set)

lemma map_of_set_regions:
  "map_of (set_regions rs m) = map_of m ++ map_of (rev (derived_entries rs))"
proof (induction rs arbitrary: m)
  case Nil
  then show ?case by (simp add: derived_entries_def)
next
  case (Cons region rs)
  show ?case
  proof (cases "countries region")
    case None
    then show ?thesis using Cons by (simp add: derived_entries_def)
  next
    case (Some cs)
    then show ?thesis using Cons
      by (simp add: derived_entries_def map_of_set_countries rev_concat rev_map)
  qed
qed

section \<open>What getCountryCode returns\<close>

text \<open>A resolved code is never the empty string and is always a key of the directory.\<close>

lemma getCountryCode_Some:
  assumes "getCountryCode env req m = Some c"
  shows "c \<noteq> [] \<and> map_has m c"
  using assms DEFAULT_REGION_not_Nil [of env]
  unfolding getCountryCode_def
  by (auto split: if_splits dest: keys_next_value_has elim!: truthy.elims)


lemma getCountryCode_cookie:
  "getCountryCode env (req\<lparr>cookie_medusa_cache_id := v\<rparr>) m = getCountryCode env req m"
  by (simp add: getCountryCode_def urlCountryCode_def cloudflareCountryCode_def
      vercelCountryCode_def)

lemma cookie_not_read:
  "first_segment (req\<lparr>cookie_medusa_cache_id := v\<rparr>) = first_segment req"
  "urlCountryCode (req\<lparr>cookie_medusa_cache_id := v\<rparr>) = urlCountryCode req"
  "region_url (req\<lparr>cookie_medusa_cache_id := v\<rparr>) code = region_url req code"
  by (simp_all add: first_segment_def urlCountryCode_def region_url_def)


section \<open>The returns of middleware, by case\<close>

lemma middleware_steps_empty:
  "middleware_steps env req uuid [] =
     (if map_option toLowerCase (first_segment req) = Some (toLowerCase (DEFAULT_REGION env))
      then (Return_281, NextResponse_next)
      else (Return_286, NextResponse_redirect (region_url req (DEFAULT_REGION env)) 307))"
  by (simp add: middleware_steps_def Let_def map_size_def first_segment_def region_url_def
      or_else_Some DEFAULT_REGION_not_Nil)

lemma middleware_steps_None:
  assumes "m \<noteq> []" and "getCountryCode env req m = None"
  shows "middleware_steps env req uuid m =
     (if includes_dot (pathname req) then (Return_306, NextResponse_next)
      else if map_option toLowerCase (first_segment req)
              = Some (toLowerCase (DEFAULT_REGION env))
      then (Return_328,
            if cookie_medusa_cache_id req = None
            then cookies_set ''_medusa_cache_id'' (or_else (cookie_medusa_cache_id req) uuid)
                   (60 * 60 * 24) NextResponse_next
            else NextResponse_next)
      else (Return_333, NextResponse_redirect (region_url req (DEFAULT_REGION env)) 307))"
  using assms
  by (auto simp: middleware_steps_def Let_def map_size_def first_segment_def region_url_def
      or_else_Some DEFAULT_REGION_not_Nil)

lemma middleware_steps_Some:
  assumes "getCountryCode env req m = Some c"
  shows "middleware_steps env req uuid m =
     (if urlCountryCode req = Some (toLowerCase c)
      then (if cookie_medusa_cache_id req \<noteq> None then (Return_291, NextResponse_next)
            else (Return_301,
                  cookies_set ''_medusa_cache_id'' (or_else (cookie_medusa_cache_id req) uuid)
                    (60 * 60 * 24) NextResponse_next))
      else if includes_dot (pathname req) then (Return_306, NextResponse_next)
      else (Return_313, NextResponse_redirect (region_url req c) 307))"
proof -
  from getCountryCode_Some [OF assms] have c: "c \<noteq> []" and "map_has m c" by simp_all
  then have m: "m \<noteq> []" by (auto simp: map_has_def)
  show ?thesis using assms c m
    by (simp add: middleware_steps_def Let_def map_size_def region_url_def or_else_Some)
qed

lemma redirect_to_resolved:
  assumes "getCountryCode env req m = Some c"
    and "urlCountryCode req \<noteq> Some (toLowerCase c)"
    and "\<not> includes_dot (pathname req)"
  shows "middleware_decide env req uuid m = NextResponse_redirect (region_url req c) 307"
  using assms by (simp add: middleware_decide_def middleware_steps_Some)




section \<open>C1: redirect to the resolved country code, and the redirected path\<close>




section \<open>C2: the precedence of getCountryCode\<close>

text \<open>
  Claim C2 says that the resolved country code is the first match over (1) the first path
  segment if it is a directory key, (2) the primary hint if a directory key, (3) the
  secondary hint if a directory key, (4) the default region if a directory key, (5) the
  first entry of the directory if non-empty, (6) undefined otherwise.

  The order is the code's, but the candidates are not compared as they arrive: lines
  219-228 lower-case the segment and both hints, and lines 230-238 skip a candidate that
  is the empty string (\<open>country_code_not_stated_precedence\<close> below has the hint \<^verbatim>\<open>US\<close>
  resolve \<^verbatim>\<open>us\<close> where the stated precedence gives the default). What holds: the resolved
  code is the first of the lower-cased segment after the first slash, the lower-cased
  primary hint, the lower-cased secondary hint, the default region and the first key of the
  directory that is present, not the empty string, and a key of the directory; it is
  undefined when there is none.
\<close>

theorem country_code_first_match:
  "getCountryCode env req m
   = List.find (\<lambda>c. c \<noteq> [] \<and> map_has m c) (precedence env req m)"
  using DEFAULT_REGION_not_Nil [of env]
  unfolding getCountryCode_def precedence_def List.map_filter_def
  by (cases "urlCountryCode req"; cases "cloudflareCountryCode req";
      cases "vercelCountryCode req"; cases "keys_next_value m")
     (auto dest: keys_next_value_has)

text \<open>The header \<^verbatim>\<open>x-vercel-ip-country: US\<close>, directory keys \<^verbatim>\<open>dk\<close> and \<^verbatim>\<open>us\<close>, default
  region \<^verbatim>\<open>dk\<close>: the code resolves \<^verbatim>\<open>us\<close>; by the stated precedence \<^verbatim>\<open>US\<close> is no key and
  the default \<^verbatim>\<open>dk\<close> is the result.\<close>

theorem country_code_not_stated_precedence:
  "getCountryCode
     \<lparr>NEXT_PUBLIC_MEDUSA_BACKEND_URL = Some ''http://localhost:9000'',
      NEXT_PUBLIC_MEDUSA_PUBLISHABLE_KEY = Some ''pk_test'',
      NEXT_PUBLIC_DEFAULT_REGION = None\<rparr>
     \<lparr>origin = ''https://shop.example'', pathname = ''/products'', search = [],
      cf_country = None, x_vercel_ip_country = Some ''US'',
      cookie_medusa_cache_id = None\<rparr>
     [(''dk'', ''reg_2''), (''us'', ''reg_1'')] = Some ''us''
   \<and> stated_country_code
     \<lparr>NEXT_PUBLIC_MEDUSA_BACKEND_URL = Some ''http://localhost:9000'',
      NEXT_PUBLIC_MEDUSA_PUBLISHABLE_KEY = Some ''pk_test'',
      NEXT_PUBLIC_DEFAULT_REGION = None\<rparr>
     \<lparr>origin = ''https://shop.example'', pathname = ''/products'', search = [],
      cf_country = None, x_vercel_ip_country = Some ''US'',
      cookie_medusa_cache_id = None\<rparr>
     [(''dk'', ''reg_2''), (''us'', ''reg_1'')] = Some ''dk''"
  by code_simp

section \<open>C3: the empty directory\<close>




section \<open>C4: paths with a dot\<close>

text \<open>
  Claim C4 says that a static-asset path is passed through for every directory, the empty
  one included. In lines 248-337 the check for a dot (line 305) comes after the return of
  the empty directory (line 286): with no regions, \<^verbatim>\<open>/logo.png\<close> is redirected to
  \<^verbatim>\<open>/dk/logo.png\<close>. The request below meets a cache that is empty and a backend that
  answers with no regions.
\<close>

theorem static_asset_redirected_without_regions:
  "middleware
     \<lparr>NEXT_PUBLIC_MEDUSA_BACKEND_URL = Some ''http://localhost:9000'',
      NEXT_PUBLIC_MEDUSA_PUBLISHABLE_KEY = Some ''pk_test'',
      NEXT_PUBLIC_DEFAULT_REGION = None\<rparr>
     \<lparr>cache_regionMap = [], cache_regionMapUpdated = 0\<rparr> 1000 1001
     (\<lambda>url key tag. Resolved \<lparr>ok = True, status = 200, body = JsonValue (RegionList [])\<rparr>)
     ''uuid-1''
     \<lparr>origin = ''https://shop.example'', pathname = ''/logo.png'', search = [],
      cf_country = None, x_vercel_ip_country = None, cookie_medusa_cache_id = None\<rparr>
   = Inr (\<lparr>action = Redirect ''https://shop.example/dk/logo.png'' 307, cookies = []\<rparr>,
          \<lparr>cache_regionMap = [], cache_regionMapUpdated = 0\<rparr>)"
  by code_simp

text \<open>With a directory that is not empty the path is passed through, and lines 104-138
  pass it through in every case, before the directory is read.\<close>

lemma static_asset_with_regions:
  assumes "m \<noteq> []" and "includes_dot (pathname req)"
  shows "action (middleware_decide env req uuid m) = Next"
proof (cases "getCountryCode env req m")
  case None
  with assms show ?thesis
    by (simp add: middleware_decide_def middleware_steps_None NextResponse_next_def)
next
  case (Some c)
  with assms show ?thesis
    by (simp add: middleware_decide_def middleware_steps_Some NextResponse_next_def
        cookies_set_def)
qed

lemma middleware_l104_static_asset:
  assumes "includes_dot (pathname req)"
  shows "middleware_l104 env cache now later fetch uuid req = Inr (NextResponse_next, cache)"
  using assms by (simp add: middleware_l104_def)


section \<open>C5: the errors of getRegionMap\<close>




section \<open>C6: what a refresh does to the cached map\<close>

text \<open>
  Claim C6 says that a refresh replaces the snapshot wholesale: after it the map holds
  exactly the entries of the fetched region list and none of an earlier snapshot.

  Lines 196-200 call \<^verbatim>\<open>set\<close> on the cached map itself, which is never cleared or replaced:
  an earlier key that the fetched list no longer has stays
  (\<open>refresh_keeps_earlier_entries\<close> below). What holds: after a successful refresh with a
  region list that is not empty, the map returned is the cached one, and it is the earlier
  map overlaid with the entries of the fetched list: a key of the fetched list maps to the
  last region that lists it, every other key maps to what it mapped to before; the
  timestamp is the time after the fetch. Whether a concurrent request can see the map
  between two \<^verbatim>\<open>set\<close> calls is not a statement about this embedding, where a call is one
  step.
\<close>

theorem refresh_merges:
  assumes "truthy (BACKEND_URL env)" and "refresh_due cache now"
    and "backend_reply env fetch cacheId = Resolved r" and "ok r"
    and "body r = JsonValue (RegionList rs)" and "rs \<noteq> []"
  shows "getRegionMap env cache now later fetch cacheId
           = Inr (set_regions rs (cache_regionMap cache),
                  \<lparr>cache_regionMap = set_regions rs (cache_regionMap cache),
                   cache_regionMapUpdated = later\<rparr>)
         \<and> map_of (set_regions rs (cache_regionMap cache))
           = map_of (cache_regionMap cache) ++ map_of (rev (derived_entries rs))"
proof -
  from assms(6) obtain r' rs' where "rs = r' # rs'" by (cases rs) auto
  with assms(1-5) show ?thesis
    by (simp add: getRegionMap_def backend_reply_def Let_def map_of_set_regions
        del: set_regions.simps)
qed

text \<open>A cache that holds \<^verbatim>\<open>us\<close> and is older than an hour, and a backend that now has the
  region of \<^verbatim>\<open>dk\<close> only.\<close>

theorem refresh_merges_witness:
  "getRegionMap shop_env \<lparr>cache_regionMap = [(''us'', reg_1)], cache_regionMapUpdated = 0\<rparr>
     3600001 3600002
     (\<lambda>url key tag. Resolved \<lparr>ok = True, status = 200, body = JsonValue (RegionList [reg_2])\<rparr>)
     ''uuid-1''
   = Inr (set_regions [reg_2] [(''us'', reg_1)],
          \<lparr>cache_regionMap = set_regions [reg_2] [(''us'', reg_1)],
           cache_regionMapUpdated = 3600002\<rparr>)
   \<and> map_of (set_regions [reg_2] [(''us'', reg_1)])
     = map_of [(''us'', reg_1)] ++ map_of (rev (derived_entries [reg_2]))"
proof -
  let ?cache = "\<lparr>cache_regionMap = [(''us'', reg_1)], cache_regionMapUpdated = 0\<rparr>"
  let ?fetch = "\<lambda>(url :: string) (key :: string option) (tag :: string).
                  Resolved \<lparr>ok = True, status = 200, body = JsonValue (RegionList [reg_2])\<rparr>"
  have h1: "truthy (BACKEND_URL shop_env)"
    by (simp add: BACKEND_URL_def shop_env_def)
  have h2: "refresh_due ?cache 3600001"
    by (simp add: refresh_due_def)
  let ?reply = "\<lparr>ok = True, status = 200, body = JsonValue (RegionList [reg_2])\<rparr>"
  have h3: "backend_reply shop_env ?fetch ''uuid-1'' = Resolved ?reply"
    by (simp add: backend_reply_def)
  have h4: "ok ?reply" by simp
  have h5: "body ?reply = JsonValue (RegionList [reg_2])" by simp
  have h6: "[reg_2] \<noteq> []" by simp
  from refresh_merges [OF h1 h2 h3 h4 h5 h6, of 3600002]
  show ?thesis by (simp del: set_regions.simps)
qed

text \<open>The same cache and reply, evaluated: \<^verbatim>\<open>us\<close> is still a key after the refresh, and it
  is no key of the entries the fetched list gives.\<close>

theorem refresh_keeps_earlier_entries:
  "getRegionMap
     \<lparr>NEXT_PUBLIC_MEDUSA_BACKEND_URL = Some ''http://localhost:9000'',
      NEXT_PUBLIC_MEDUSA_PUBLISHABLE_KEY = Some ''pk_test'',
      NEXT_PUBLIC_DEFAULT_REGION = None\<rparr>
     \<lparr>cache_regionMap =
        [(''us'', \<lparr>region_id = ''reg_1'', countries = Some [\<lparr>iso_2 = Some ''us''\<rparr>]\<rparr>)],
      cache_regionMapUpdated = 0\<rparr>
     3600001 3600002
     (\<lambda>url key tag.
        Resolved
          \<lparr>ok = True, status = 200,
           body =
             JsonValue
               (RegionList
                  [\<lparr>region_id = ''reg_2'', countries = Some [\<lparr>iso_2 = Some ''dk''\<rparr>]\<rparr>])\<rparr>)
     ''uuid-1''
   = Inr ([(''us'', \<lparr>region_id = ''reg_1'', countries = Some [\<lparr>iso_2 = Some ''us''\<rparr>]\<rparr>),
           (''dk'', \<lparr>region_id = ''reg_2'', countries = Some [\<lparr>iso_2 = Some ''dk''\<rparr>]\<rparr>)],
          \<lparr>cache_regionMap =
             [(''us'', \<lparr>region_id = ''reg_1'', countries = Some [\<lparr>iso_2 = Some ''us''\<rparr>]\<rparr>),
              (''dk'', \<lparr>region_id = ''reg_2'', countries = Some [\<lparr>iso_2 = Some ''dk''\<rparr>]\<rparr>)],
           cache_regionMapUpdated = 3600002\<rparr>)
   \<and> \<not> map_has
         (derived_entries
            [\<lparr>region_id = ''reg_2'', countries = Some [\<lparr>iso_2 = Some ''dk''\<rparr>]\<rparr>])
         ''us''"
  by code_simp

section \<open>C7: the root path\<close>



section \<open>C8: the last return\<close>



section \<open>C9: the cookie is set on pass-through responses only\<close>

text \<open>
  Claim C9: a response that is not a pass-through sets no cookie; and a response that sets
  a cookie is a pass-through to a request that carried none and whose URL is already
  region-prefixed, and the cookie it sets is \<^verbatim>\<open>_medusa_cache_id\<close> with the fresh identifier
  and a lifetime of a day.
\<close>

theorem cookie_only_on_pass_through:
  "(action (middleware_decide env req uuid m) \<noteq> Next
      \<longrightarrow> cookies (middleware_decide env req uuid m) = [])
   \<and> (cookies (middleware_decide env req uuid m) \<noteq> []
      \<longrightarrow> action (middleware_decide env req uuid m) = Next
          \<and> cookie_medusa_cache_id req = None
          \<and> url_has_region env req m
          \<and> cookies (middleware_decide env req uuid m)
              = [(''_medusa_cache_id'', uuid, 60 * 60 * 24)])"
proof (cases "m = []")
  case True
  then show ?thesis
    by (simp add: middleware_decide_def middleware_steps_empty NextResponse_next_def
        NextResponse_redirect_def)
next
  case False
  show ?thesis
  proof (cases "getCountryCode env req m")
    case None
    then show ?thesis using False
      by (simp add: middleware_decide_def middleware_steps_None NextResponse_next_def
          NextResponse_redirect_def cookies_set_def url_has_region_def or_else_def)
  next
    case (Some c)
    then show ?thesis
      by (simp add: middleware_decide_def middleware_steps_Some NextResponse_next_def
          NextResponse_redirect_def cookies_set_def url_has_region_def or_else_def)
  qed
qed

text \<open>\<^verbatim>\<open>/products\<close> is redirected and sets no cookie; \<^verbatim>\<open>/dk/products\<close> without a cookie is
  passed through and sets one.\<close>

theorem cookie_only_on_pass_through_witness:
  "cookies (middleware_decide shop_env (shop_request ''/products'') ''uuid-1'' shop_directory)
     = []
   \<and> action (middleware_decide shop_env (shop_request ''/dk/products'') ''uuid-1''
       shop_directory) = Next
   \<and> url_has_region shop_env (shop_request ''/dk/products'') shop_directory
   \<and> cookies (middleware_decide shop_env (shop_request ''/dk/products'') ''uuid-1''
       shop_directory) = [(''_medusa_cache_id'', ''uuid-1'', 60 * 60 * 24)]"
proof -
  have c1: "getCountryCode shop_env (shop_request ''/products'') shop_directory = Some ''dk''"
    by code_simp
  have u1: "urlCountryCode (shop_request ''/products'') \<noteq> Some (toLowerCase ''dk'')"
    by code_simp
  have d1: "\<not> includes_dot (pathname (shop_request ''/products''))"
    by code_simp
  have a: "action (middleware_decide shop_env (shop_request ''/products'') ''uuid-1''
             shop_directory) \<noteq> Next"
    by (simp add: redirect_to_resolved [OF c1 u1 d1] NextResponse_redirect_def)
  have c2: "getCountryCode shop_env (shop_request ''/dk/products'') shop_directory
              = Some ''dk''"
    by code_simp
  have u2: "urlCountryCode (shop_request ''/dk/products'') = Some (toLowerCase ''dk'')"
    by code_simp
  have n2: "cookie_medusa_cache_id (shop_request ''/dk/products'') = None"
    by (simp add: shop_request_def)
  have b: "cookies (middleware_decide shop_env (shop_request ''/dk/products'') ''uuid-1''
             shop_directory) \<noteq> []"
    by (simp add: middleware_decide_def middleware_steps_Some [OF c2] u2 n2 cookies_set_def)
  from a
    cookie_only_on_pass_through [of shop_env "shop_request ''/products''" "''uuid-1''"
      shop_directory]
  have "cookies (middleware_decide shop_env (shop_request ''/products'') ''uuid-1''
          shop_directory) = []"
    by simp
  moreover from b
    cookie_only_on_pass_through [of shop_env "shop_request ''/dk/products''" "''uuid-1''"
      shop_directory]
  have "action (middleware_decide shop_env (shop_request ''/dk/products'') ''uuid-1''
          shop_directory) = Next
        \<and> cookie_medusa_cache_id (shop_request ''/dk/products'') = None
        \<and> url_has_region shop_env (shop_request ''/dk/products'') shop_directory
        \<and> cookies (middleware_decide shop_env (shop_request ''/dk/products'') ''uuid-1''
              shop_directory) = [(''_medusa_cache_id'', ''uuid-1'', 60 * 60 * 24)]"
    by simp
  ultimately show ?thesis by simp
qed

section \<open>C10: the value of the cookie\<close>

text \<open>
  Claim C10: with the directory fixed, two requests that differ only in the value of the
  cookie \<^verbatim>\<open>_medusa_cache_id\<close>, which both carry, get the same response: the same decision
  and, for a redirect, the same target. The identifier that \<^verbatim>\<open>crypto.randomUUID()\<close> would
  give does not matter either.
\<close>

theorem cookie_value_irrelevant:
  "middleware_decide env (req\<lparr>cookie_medusa_cache_id := Some v1\<rparr>) uuid1 m
   = middleware_decide env (req\<lparr>cookie_medusa_cache_id := Some v2\<rparr>) uuid2 m"
proof (cases "m = []")
  case True
  then show ?thesis
    by (auto simp: middleware_decide_def middleware_steps_empty cookie_not_read)
next
  case False
  show ?thesis
  proof (cases "getCountryCode env req m")
    case None
    then show ?thesis using False
      by (auto simp: middleware_decide_def middleware_steps_None getCountryCode_cookie
          cookie_not_read)
  next
    case (Some c)
    then show ?thesis
      by (simp add: middleware_decide_def middleware_steps_Some getCountryCode_cookie
          cookie_not_read)
  qed
qed


section \<open>Further properties\<close>

text \<open>A dotted path and a directory that is not empty, at \<^verbatim>\<open>/logo.png\<close> with the directory of
  the example.\<close>

lemma static_asset_with_regions_witness:
  "action (middleware_decide shop_env (shop_request ''/logo.png'') ''uuid-1'' shop_directory)
   = Next"
proof -
  have h1: "shop_directory \<noteq> []"
    by (simp add: shop_directory_def)
  have h2: "includes_dot (pathname (shop_request ''/logo.png''))"
    by code_simp
  show ?thesis by (rule static_asset_with_regions [OF h1 h2])
qed

text \<open>Lines 104-138 at \<^verbatim>\<open>/logo.png\<close>, with an empty cache and a backend without regions.\<close>

lemma middleware_l104_static_asset_witness:
  "middleware_l104 shop_env \<lparr>cache_regionMap = [], cache_regionMapUpdated = 0\<rparr> 1000 1001
     (\<lambda>url key tag. Resolved \<lparr>ok = True, status = 200, body = JsonValue (RegionList [])\<rparr>)
     ''uuid-1'' (shop_request ''/logo.png'')
   = Inr (NextResponse_next, \<lparr>cache_regionMap = [], cache_regionMapUpdated = 0\<rparr>)"
proof -
  have h: "includes_dot (pathname (shop_request ''/logo.png''))"
    by code_simp
  show ?thesis by (rule middleware_l104_static_asset [OF h])
qed

text \<open>A request whose segment after the first slash is the resolved country code, and that
  carries the cookie, is passed through with no cookie set (line 291).\<close>

lemma prefixed_with_cookie_unchanged:
  assumes "getCountryCode env req m = Some c"
    and "urlCountryCode req = Some (toLowerCase c)"
    and "cookie_medusa_cache_id req \<noteq> None"
  shows "middleware_decide env req uuid m = NextResponse_next"
  using assms by (simp add: middleware_decide_def middleware_steps_Some)

text \<open>The second example of the specification: \<^verbatim>\<open>/us/products/shirt\<close> with the cookie
  set.\<close>

lemma prefixed_with_cookie_unchanged_witness:
  "middleware_decide shop_env
     ((shop_request ''/us/products/shirt'')\<lparr>cookie_medusa_cache_id := Some ''c-1''\<rparr>)
     ''uuid-1'' shop_directory
   = NextResponse_next"
proof -
  let ?req = "(shop_request ''/us/products/shirt'')\<lparr>cookie_medusa_cache_id := Some ''c-1''\<rparr>"
  have h1: "getCountryCode shop_env ?req shop_directory = Some ''us''"
    by code_simp
  have h2: "urlCountryCode ?req = Some (toLowerCase ''us'')"
    by code_simp
  have h3: "cookie_medusa_cache_id ?req \<noteq> None"
    by simp
  show ?thesis by (rule prefixed_with_cookie_unchanged [OF h1 h2 h3])
qed


end
